theory Spec2Isabelle
  imports Main "HOL-Library.Word"
begin

section \<open>The scanner states of number.go\<close>

text \<open>
  The scan action codes returned by a step function. number.go names
  \<open>scanContinue\<close>, \<open>scanSkipSpace\<close> and \<open>scanBeginCtor\<close>; the other codes of
  scanner.go are listed so that a step can be seen not to return them.
\<close>

datatype scan_op =
    scanContinue
  | scanBeginLiteral
  | scanSkipSpace
  | scanBeginCtor
  | scanCtorArg
  | scanEndCtor
  | scanEnd
  | scanError

text \<open>
  \<open>s.step\<close> is a function pointer in the source. The step functions that number.go
  installs are named here: \<open>generateState name bytes next\<close> stands for the closure
  that \<open>generateState(name, bytes, next)\<close> returns, with its three captured
  arguments; \<open>stateConstructor\<close> and \<open>stateError\<close> are states of scanner.go.
\<close>

datatype step_fn =
    stateUpperNu_fn
  | stateUpperNumber_fn
  | stateConstructor
  | stateError
  | generateState string string step_fn

text \<open>
  The syntax error that \<open>s.error(c, context)\<close> records: the offending character
  and the context text the caller passes.
\<close>

datatype SyntaxError = SyntaxError char string

record scanner =
  step :: step_fn
  err :: "SyntaxError option"

text \<open>
  Modelled from the spec: \<open>s.error\<close> of scanner.go, which is not part of
  number.go. A syntax error is fatal: it carries the offending character and the
  expected alternatives, the scanner moves to its error state and the step
  returns \<open>scanError\<close>.
\<close>

definition scanner_error :: "scanner \<Rightarrow> char \<Rightarrow> string \<Rightarrow> scan_op \<times> scanner" where
  "scanner_error s c context = (scanError, s\<lparr>step := stateError, err := Some (SyntaxError c context)\<rparr>)"

text \<open>\<open>stateUpperNu\<close> is the state after reading \<open>Nu\<close>.\<close>

definition stateUpperNu :: "scanner \<Rightarrow> char \<Rightarrow> scan_op \<times> scanner" where
  "stateUpperNu s c =
     (if c = CHR ''m'' then
        (scanContinue, s\<lparr>step := generateState ''Number'' ''ber'' stateUpperNumber_fn\<rparr>)
      else scanner_error s c ''in literal Number (expecting 'm')'')"

text \<open>\<open>stateUpperNumber\<close> is the state after reading \<open>Number\<close>.\<close>

definition stateUpperNumber :: "scanner \<Rightarrow> char \<Rightarrow> scan_op \<times> scanner" where
  "stateUpperNumber s c =
     (if c = CHR ''I'' then
        (scanContinue, s\<lparr>step := generateState ''NumberInt'' ''nt'' stateConstructor\<rparr>)
      else if c = CHR ''L'' then
        (scanContinue, s\<lparr>step := generateState ''NumberLong'' ''ong'' stateConstructor\<rparr>)
      else if c = CHR ''D'' then
        (scanContinue, s\<lparr>step := generateState ''NumberDecimal'' ''ecimal'' stateConstructor\<rparr>)
      else scanner_error s c ''in literal NumberInt or NumberLong (expecting 'I' or 'L')'')"

section \<open>Values, errors and the decode state\<close>

text \<open>The kinds of \<open>reflect.Kind\<close>, in the order of the Go library.\<close>

datatype Kind =
    Invalid | Bool | Int | Int8 | Int16 | Int32 | Int64
  | Uint | Uint8 | Uint16 | Uint32 | Uint64 | Uintptr
  | Float32 | Float64 | Complex64 | Complex128
  | Array | Chan | Func | Interface | Map | Pointer | Slice | String | Struct
  | UnsafePointer

text \<open>
  The three \<open>reflect.Type\<close> values number.go passes around. They are package
  variables declared in another file of the package.
\<close>

datatype Type = numberIntType | numberLongType | stringType

text \<open>\<open>primitive.Decimal128\<close> of the driver: two 64-bit halves.\<close>

record primitive_Decimal128 =
  h :: "64 word"
  l :: "64 word"

text \<open>
  A Go value as the decoder hands it around, in an \<open>interface{}\<close> or a
  \<open>reflect.Value\<close>: a \<open>json.Number\<close> (the text of a number literal), a Go
  string, one of the three typed literals, or any other value, kept as its type
  name and its rendering.
\<close>

datatype val =
    Number string
  | Str string
  | NumberInt "32 word"
  | NumberLong "64 word"
  | Decimal128 primitive_Decimal128
  | OtherValue string string

text \<open>
  An error value. \<open>Errorf format args\<close> is \<open>fmt.Errorf(format, args...)\<close>, kept
  unrendered. \<open>ArityMismatch name expected actual\<close> is what
  \<open>ctorNumArgsMismatch\<close> reports. \<open>RuntimePanic\<close> is a panic of the Go run time.
\<close>

datatype fmt_arg = ArgType Type | ArgKind Kind | ArgValue val | ArgString string

datatype error =
    Errorf string "fmt_arg list"
  | ArityMismatch string int int
  | RuntimePanic string

text \<open>
  Modelled from the spec: \<open>ctorNumArgsMismatch\<close>, declared in another file of the
  package. An arity mismatch carries the constructor name, the expected count and
  the actual count; equal counts are no error.
\<close>

definition ctorNumArgsMismatch :: "string \<Rightarrow> int \<Rightarrow> int \<Rightarrow> error option" where
  "ctorNumArgsMismatch name expected actual =
     (if expected \<noteq> actual then Some (ArityMismatch name expected actual) else None)"

text \<open>
  The destination \<open>v reflect.Value\<close>: its kind, and every value \<open>v.Set\<close> has
  stored in it, oldest first (the slot holds the last one).
\<close>

record Value =
  kind :: Kind
  stored :: "val list"

definition Value_Set :: "Value \<Rightarrow> val \<Rightarrow> Value" where
  "Value_Set v x = v\<lparr>stored := stored v @ [x]\<rparr>"

text \<open>
  \<open>reflect.Value.String\<close>: the string of a string value; for any other value it
  does not panic but returns a text naming the type.
\<close>

fun typeName :: "val \<Rightarrow> string" where
  "typeName (Number n) = ''json.Number''"
| "typeName (Str s) = ''string''"
| "typeName (NumberInt i) = ''json.NumberInt''"
| "typeName (NumberLong i) = ''json.NumberLong''"
| "typeName (Decimal128 x) = ''json.Decimal128''"
| "typeName (OtherValue t r) = t"

fun Value_String :: "val \<Rightarrow> string" where
  "Value_String (Str s) = s"
| "Value_String a = ''<'' @ typeName a @ '' Value>''"

text \<open>
  The decode state. number.go reads and writes its \<open>useNumber\<close> flag; the input,
  the offset and the scanner are touched only through helpers of other files and
  are kept as one component \<open>cursor\<close> of any type.
\<close>

record 's decodeState =
  useNumber :: bool
  cursor :: 's

text \<open>
  The helpers number.go calls and does not define: \<open>d.scanWhile\<close>, \<open>d.ctor\<close>,
  \<open>d.ctorInterface\<close>, the conversions \<open>Number.Int32\<close> and \<open>Number.Int64\<close>, and
  the driver's \<open>primitive.ParseDecimal128\<close>. They are parameters of the model. A
  helper that works on the decode state returns the state it leaves; \<open>Inl e\<close> is
  a \<open>d.error(e)\<close> raised inside the helper. \<open>d.ctor\<close> returns its values and its
  \<open>error\<close> result side by side, as in Go, and so does \<open>ParseDecimal128\<close>.
\<close>

record 's helpers =
  scanWhile :: "scan_op \<Rightarrow> 's decodeState \<Rightarrow> scan_op \<times> 's decodeState"
  ctor :: "string \<Rightarrow> Type list \<Rightarrow> 's decodeState \<Rightarrow> (error + val list \<times> error option) \<times> 's decodeState"
  ctorInterface :: "'s decodeState \<Rightarrow> (error + val list) \<times> 's decodeState"
  Number_Int32 :: "string \<Rightarrow> 32 word option"
  Number_Int64 :: "string \<Rightarrow> 64 word option"
  ParseDecimal128 :: "string \<Rightarrow> primitive_Decimal128 \<times> string option"

section \<open>The six entry points\<close>

text \<open>
  \<open>d.error(err)\<close> panics: the entry point stops there, and the decode state
  stays as it is at that moment. An entry point therefore returns \<open>Inl err\<close>
  or \<open>Inr\<close> its result, together with the decode state it leaves (and, for a
  store, the destination it leaves).
\<close>

text \<open>\<open>storeNumberInt\<close> decodes a NumberInt literal into \<open>v\<close>.\<close>

definition storeNumberInt ::
    "'s helpers \<Rightarrow> Value \<Rightarrow> 's decodeState \<Rightarrow> (error + unit) \<times> 's decodeState \<times> Value" where
  "storeNumberInt hs v d =
     (case scanWhile hs scanSkipSpace d of (op, d1) \<Rightarrow>
        if op \<noteq> scanBeginCtor then (Inl (Errorf ''expected beginning of constructor'' []), d1, v)
        else
          (case ctor hs ''NumberInt'' [numberIntType] d1 of
             (Inl e, d2) \<Rightarrow> (Inl e, d2, v)
           | (Inr (args, Some e), d2) \<Rightarrow> (Inl e, d2, v)
           | (Inr (args, None), d2) \<Rightarrow>
               (if kind v = Interface then
                  (case args of
                     [] \<Rightarrow> (Inl (RuntimePanic ''index out of range''), d2, v)
                   | a # rest \<Rightarrow> (Inr (), d2, Value_Set v a))
                else
                  (Inl (Errorf ''cannot store %v value into %v type''
                          [ArgType numberIntType, ArgKind (kind v)]), d2, v))))"

text \<open>\<open>getNumberInt\<close> returns a NumberInt literal as a dynamic value.\<close>

definition getNumberInt :: "'s helpers \<Rightarrow> 's decodeState \<Rightarrow> (error + val) \<times> 's decodeState" where
  "getNumberInt hs d =
     (case scanWhile hs scanSkipSpace d of (op, d1) \<Rightarrow>
        if op \<noteq> scanBeginCtor then (Inl (Errorf ''expected beginning of constructor'' []), d1)
        else
          let saved = useNumber d1;
              d2 = d1\<lparr>useNumber := True\<rparr>
          in (case ctorInterface hs d2 of
                (Inl e, d3) \<Rightarrow> (Inl e, d3)
              | (Inr args, d3) \<Rightarrow>
                  (case ctorNumArgsMismatch ''NumberInt'' 1 (int (length args)) of
                     Some e \<Rightarrow> (Inl e, d3)
                   | None \<Rightarrow>
                       (case args of
                          [] \<Rightarrow> (Inl (RuntimePanic ''index out of range''), d3)
                        | a # rest \<Rightarrow>
                            (case (case a of
                                     Number n \<Rightarrow> Inr n
                                   | Str s \<Rightarrow> Inr s
                                   | _ \<Rightarrow> Inl (Errorf ''expected int32 for first argument of NumberInt constructor, got %T (value was %v)''
                                                 [ArgValue a, ArgValue a])) of
                               Inl e \<Rightarrow> (Inl e, d3)
                             | Inr number \<Rightarrow>
                                 let d4 = d3\<lparr>useNumber := saved\<rparr>
                                 in (case Number_Int32 hs number of
                                       None \<Rightarrow>
                                         (Inl (Errorf ''expected int32 for first argument of NumberInt constructor, got %T (value was %v)''
                                                 [ArgValue (Number number), ArgValue (Number number)]), d4)
                                     | Some arg0 \<Rightarrow> (Inr (NumberInt arg0), d4)))))))"

text \<open>\<open>storeNumberLong\<close> decodes a NumberLong literal into \<open>v\<close>.\<close>

definition storeNumberLong ::
    "'s helpers \<Rightarrow> Value \<Rightarrow> 's decodeState \<Rightarrow> (error + unit) \<times> 's decodeState \<times> Value" where
  "storeNumberLong hs v d =
     (case scanWhile hs scanSkipSpace d of (op, d1) \<Rightarrow>
        if op \<noteq> scanBeginCtor then (Inl (Errorf ''expected beginning of constructor'' []), d1, v)
        else
          (case ctor hs ''NumberLong'' [numberLongType] d1 of
             (Inl e, d2) \<Rightarrow> (Inl e, d2, v)
           | (Inr (args, Some e), d2) \<Rightarrow> (Inl e, d2, v)
           | (Inr (args, None), d2) \<Rightarrow>
               (if kind v = Interface then
                  (case args of
                     [] \<Rightarrow> (Inl (RuntimePanic ''index out of range''), d2, v)
                   | a # rest \<Rightarrow> (Inr (), d2, Value_Set v a))
                else
                  (Inl (Errorf ''cannot store %v value into %v type''
                          [ArgType numberLongType, ArgKind (kind v)]), d2, v))))"

text \<open>\<open>getNumberLong\<close> returns a NumberLong literal as a dynamic value.\<close>

definition getNumberLong :: "'s helpers \<Rightarrow> 's decodeState \<Rightarrow> (error + val) \<times> 's decodeState" where
  "getNumberLong hs d =
     (case scanWhile hs scanSkipSpace d of (op, d1) \<Rightarrow>
        if op \<noteq> scanBeginCtor then (Inl (Errorf ''expected beginning of constructor'' []), d1)
        else
          let saved = useNumber d1;
              d2 = d1\<lparr>useNumber := True\<rparr>
          in (case ctorInterface hs d2 of
                (Inl e, d3) \<Rightarrow> (Inl e, d3)
              | (Inr args, d3) \<Rightarrow>
                  (case ctorNumArgsMismatch ''NumberLong'' 1 (int (length args)) of
                     Some e \<Rightarrow> (Inl e, d3)
                   | None \<Rightarrow>
                       (case args of
                          [] \<Rightarrow> (Inl (RuntimePanic ''index out of range''), d3)
                        | a # rest \<Rightarrow>
                            (case (case a of
                                     Number n \<Rightarrow> Inr n
                                   | Str s \<Rightarrow> Inr s
                                   | _ \<Rightarrow> Inl (Errorf ''expected int64 for first argument of NumberLong constructor, got %T (value was %v)''
                                                 [ArgValue a, ArgValue a])) of
                               Inl e \<Rightarrow> (Inl e, d3)
                             | Inr number \<Rightarrow>
                                 let d4 = d3\<lparr>useNumber := saved\<rparr>
                                 in (case Number_Int64 hs number of
                                       None \<Rightarrow>
                                         (Inl (Errorf ''expected int64 for first argument of NumberLong constructor, got %T (value was %v)''
                                                 [ArgValue (Number number), ArgValue (Number number)]), d4)
                                     | Some arg0 \<Rightarrow> (Inr (NumberLong arg0), d4)))))))"

text \<open>
  \<open>storeNumberDecimal\<close> decodes a NumberDecimal literal into \<open>v\<close>. The error
  result of \<open>ParseDecimal128\<close> is assigned to the blank identifier.
\<close>

definition storeNumberDecimal ::
    "'s helpers \<Rightarrow> Value \<Rightarrow> 's decodeState \<Rightarrow> (error + unit) \<times> 's decodeState \<times> Value" where
  "storeNumberDecimal hs v d =
     (case scanWhile hs scanSkipSpace d of (op, d1) \<Rightarrow>
        if op \<noteq> scanBeginCtor then (Inl (Errorf ''expected beginning of constructor'' []), d1, v)
        else
          (case ctor hs ''string'' [stringType] d1 of
             (Inl e, d2) \<Rightarrow> (Inl e, d2, v)
           | (Inr (args, Some e), d2) \<Rightarrow> (Inl e, d2, v)
           | (Inr (args, None), d2) \<Rightarrow>
               (if kind v = Interface then
                  (case args of
                     [] \<Rightarrow> (Inl (RuntimePanic ''index out of range''), d2, v)
                   | a # rest \<Rightarrow>
                       (case ParseDecimal128 hs (Value_String a) of (vv, ignored) \<Rightarrow>
                          (Inr (), d2, Value_Set v (Decimal128 vv))))
                else
                  (Inl (Errorf ''cannot store %v value into %v type''
                          [ArgType stringType, ArgKind (kind v)]), d2, v))))"

text \<open>
  \<open>getNumberDecimal\<close> returns a NumberDecimal literal as a dynamic value.
  \<open>Number.String\<close> is the text of the number itself.
\<close>

definition getNumberDecimal :: "'s helpers \<Rightarrow> 's decodeState \<Rightarrow> (error + val) \<times> 's decodeState" where
  "getNumberDecimal hs d =
     (case scanWhile hs scanSkipSpace d of (op, d1) \<Rightarrow>
        if op \<noteq> scanBeginCtor then (Inl (Errorf ''expected beginning of constructor'' []), d1)
        else
          let saved = useNumber d1;
              d2 = d1\<lparr>useNumber := True\<rparr>
          in (case ctorInterface hs d2 of
                (Inl e, d3) \<Rightarrow> (Inl e, d3)
              | (Inr args, d3) \<Rightarrow>
                  (case ctorNumArgsMismatch ''string'' 1 (int (length args)) of
                     Some e \<Rightarrow> (Inl e, d3)
                   | None \<Rightarrow>
                       (case args of
                          [] \<Rightarrow> (Inl (RuntimePanic ''index out of range''), d3)
                        | a # rest \<Rightarrow>
                            (case (case a of
                                     Number n \<Rightarrow> Inr n
                                   | Str s \<Rightarrow> Inr s
                                   | _ \<Rightarrow> Inl (Errorf ''expected int32 for first argument of NumberInt constructor, got %T (value was %v)''
                                                 [ArgValue a, ArgValue a])) of
                               Inl e \<Rightarrow> (Inl e, d3)
                             | Inr number \<Rightarrow>
                                 let d4 = d3\<lparr>useNumber := saved\<rparr>
                                 in (case ParseDecimal128 hs number of
                                       (val, Some msg) \<Rightarrow>
                                         (Inl (Errorf ''parse decimal error: %s'' [ArgString msg]), d4)
                                     | (val, None) \<Rightarrow> (Inr (Decimal128 val), d4)))))))"

section \<open>The numeric coercion layer and the argument reader\<close>

text \<open>
  Modelled from the spec: \<open>Number.Int32\<close> and \<open>Number.Int64\<close>, which are defined
  in another file of the package. The text is parsed as a base-10 signed
  integer: an optional sign, then one or more decimal digits. The conversion
  fails if the text is not such an integer or if the integer does not fit in 32
  (respectively 64) bits.
\<close>

definition digit_val :: "char \<Rightarrow> nat option" where
  "digit_val c =
     (if (48::nat) \<le> of_char c \<and> of_char c \<le> (57::nat) then Some (of_char c - 48) else None)"

fun parse_digits :: "nat \<Rightarrow> string \<Rightarrow> nat option" where
  "parse_digits acc [] = Some acc"
| "parse_digits acc (c # cs) =
     (case digit_val c of None \<Rightarrow> None | Some v \<Rightarrow> parse_digits (acc * 10 + v) cs)"

definition parse_int :: "string \<Rightarrow> int option" where
  "parse_int s =
     (case s of
        [] \<Rightarrow> None
      | c # cs \<Rightarrow>
          if c = CHR ''-'' then
            (if cs = [] then None else map_option (\<lambda>m. - int m) (parse_digits 0 cs))
          else if c = CHR ''+'' then
            (if cs = [] then None else map_option int (parse_digits 0 cs))
          else map_option int (parse_digits 0 s))"

definition Int32_spec :: "string \<Rightarrow> 32 word option" where
  "Int32_spec s =
     (case parse_int s of
        None \<Rightarrow> None
      | Some n \<Rightarrow> if - (2 ^ 31) \<le> n \<and> n < 2 ^ 31 then Some (word_of_int n) else None)"

definition Int64_spec :: "string \<Rightarrow> 64 word option" where
  "Int64_spec s =
     (case parse_int s of
        None \<Rightarrow> None
      | Some n \<Rightarrow> if - (2 ^ 63) \<le> n \<and> n < 2 ^ 63 then Some (word_of_int n) else None)"

text \<open>
  The decimal text of an integer, as it is written in a literal
  \<open>NumberInt(n)\<close>: a minus sign for a negative number, then the digits without
  leading zeros.
\<close>

fun digits :: "nat \<Rightarrow> string" where
  "digits n =
     (if n < 10 then [char_of (48 + n)]
      else digits (n div 10) @ [char_of (48 + n mod 10)])"

definition itoa :: "int \<Rightarrow> string" where
  "itoa n = (if n < 0 then CHR ''-'' # digits (nat (- n)) else digits (nat n))"

text \<open>
  Modelled from the spec: the argument of a constructor call is a JSON number
  or a JSON string, and the base decoder (in another file of the package) reads
  it into a dynamic value. A quoted string becomes a Go string. A bare number is
  kept as its text, a \<open>json.Number\<close>, when the decode state preserves numeric
  literals as text, and becomes a \<open>float64\<close> otherwise.
\<close>

datatype NumArg = Bare string | Quoted string

fun valueInterface :: "bool \<Rightarrow> NumArg \<Rightarrow> val" where
  "valueInterface u (Quoted s) = Str s"
| "valueInterface u (Bare s) = (if u then Number s else OtherValue ''float64'' s)"

text \<open>
  One run of the helpers, given by what they return: \<open>d.scanWhile\<close> reports the
  action \<open>op\<close>, \<open>d.ctor\<close> returns \<open>c\<close>, \<open>d.ctorInterface\<close> returns \<open>ci u\<close> where
  \<open>u\<close> is the \<open>useNumber\<close> flag at the call, and the decimal parser is \<open>P\<close>. The
  integer conversions are the ones modelled above. The cursor is not modelled
  (it has type \<open>unit\<close>).
\<close>

definition run ::
    "scan_op \<Rightarrow> (error + val list \<times> error option) \<Rightarrow> (bool \<Rightarrow> error + val list) \<Rightarrow>
     (string \<Rightarrow> primitive_Decimal128 \<times> string option) \<Rightarrow> unit helpers" where
  "run op c ci P =
     \<lparr>scanWhile = (\<lambda>w d. (op, d)),
      ctor = (\<lambda>name ts d. (c, d)),
      ctorInterface = (\<lambda>d. (ci (useNumber d), d)),
      Number_Int32 = Int32_spec,
      Number_Int64 = Int64_spec,
      ParseDecimal128 = P\<rparr>"

text \<open>The dynamic values of a constructor call with the arguments \<open>as\<close>.\<close>

definition call :: "NumArg list \<Rightarrow> bool \<Rightarrow> error + val list" where
  "call as u = Inr (map (valueInterface u) as)"

text \<open>A decimal parser that rejects every text, and one that accepts every text.\<close>

definition reject_all :: "string \<Rightarrow> primitive_Decimal128 \<times> string option" where
  "reject_all s = (\<lparr>h = 0, l = 0\<rparr>, Some (''not a decimal: '' @ s))"

definition accept_all :: "string \<Rightarrow> primitive_Decimal128 \<times> string option" where
  "accept_all s = (\<lparr>h = 0, l = of_nat (length s)\<rparr>, None)"

section \<open>Auxiliary facts\<close>

subsection \<open>Decimal text and its parser\<close>

lemma digit_val_char_of: "k < 10 \<Longrightarrow> digit_val (char_of (48 + k)) = Some k"
  by (simp add: digit_val_def)

lemma digit_val_sign: "digit_val (CHR ''-'') = None" "digit_val (CHR ''+'') = None"
  by (simp_all add: digit_val_def)

lemma parse_digits_append:
  "parse_digits acc (xs @ ys) =
     (case parse_digits acc xs of None \<Rightarrow> None | Some a \<Rightarrow> parse_digits a ys)"
  by (induction xs arbitrary: acc) (auto split: option.splits)

lemma digits_unfold_ge10:
  "\<not> n < 10 \<Longrightarrow> digits n = digits (n div 10) @ [char_of (48 + n mod 10)]"
  by (subst digits.simps) simp

lemma parse_digits_digits: "parse_digits 0 (digits n) = Some n"
proof (induction n rule: digits.induct)
  case (1 n)
  show ?case
  proof (cases "n < 10")
    case True
    then show ?thesis by (simp add: digit_val_char_of)
  next
    case False
    with 1 have ih: "parse_digits 0 (digits (n div 10)) = Some (n div 10)" by simp
    have "n mod 10 < 10" by simp
    then have dv: "digit_val (char_of (48 + n mod 10)) = Some (n mod 10)"
      by (rule digit_val_char_of)
    show ?thesis
      using ih dv digits_unfold_ge10 [OF False]
      by (simp add: parse_digits_append del: digits.simps)
  qed
qed

lemma digits_hd: "\<exists>c cs. digits n = c # cs \<and> c \<noteq> CHR ''-'' \<and> c \<noteq> CHR ''+''"
proof (induction n rule: digits.induct)
  case (1 n)
  show ?case
  proof (cases "n < 10")
    case True
    have "char_of (48 + n) \<noteq> CHR ''-'' \<and> char_of (48 + n) \<noteq> CHR ''+''"
      using digit_val_char_of [OF True] digit_val_sign by auto
    with True show ?thesis by simp
  next
    case False
    with 1 obtain c cs where "digits (n div 10) = c # cs" "c \<noteq> CHR ''-''" "c \<noteq> CHR ''+''"
      by blast
    then show ?thesis
      using digits_unfold_ge10 [OF False] by simp
  qed
qed

lemma parse_int_itoa: "parse_int (itoa n) = Some n"
proof (cases "n < 0")
  case True
  obtain c cs where "digits (nat (- n)) = c # cs" using digits_hd by blast
  then have "digits (nat (- n)) \<noteq> []" by simp
  with True show ?thesis
    by (simp add: parse_int_def itoa_def parse_digits_digits del: digits.simps)
next
  case False
  obtain c cs where dg: "digits (nat n) = c # cs" "c \<noteq> CHR ''-''" "c \<noteq> CHR ''+''"
    using digits_hd by blast
  have "parse_digits 0 (c # cs) = Some (nat n)"
    using parse_digits_digits [of "nat n"] dg by simp
  with False dg show ?thesis
    by (simp add: parse_int_def itoa_def del: digits.simps parse_digits.simps)
qed

lemma Int32_spec_itoa:
  "- (2 ^ 31) \<le> n \<Longrightarrow> n < 2 ^ 31 \<Longrightarrow> Int32_spec (itoa n) = Some (word_of_int n)"
  by (simp add: Int32_spec_def parse_int_itoa)

lemma Int32_spec_itoa_out: "n < - (2 ^ 31) \<or> 2 ^ 31 \<le> n \<Longrightarrow> Int32_spec (itoa n) = None"
  by (auto simp add: Int32_spec_def parse_int_itoa)

lemma Int64_spec_itoa:
  "- (2 ^ 63) \<le> n \<Longrightarrow> n < 2 ^ 63 \<Longrightarrow> Int64_spec (itoa n) = Some (word_of_int n)"
  by (simp add: Int64_spec_def parse_int_itoa)

lemma sint_int32: "- (2 ^ 31) \<le> n \<Longrightarrow> n < 2 ^ 31 \<Longrightarrow> sint (word_of_int n :: 32 word) = n"
  by (simp add: sint_sbintrunc' signed_take_bit_int_eq_self)

lemma sint_int64: "- (2 ^ 63) \<le> n \<Longrightarrow> n < 2 ^ 63 \<Longrightarrow> sint (word_of_int n :: 64 word) = n"
  by (simp add: sint_sbintrunc' signed_take_bit_int_eq_self)

subsection \<open>The outcomes of a store\<close>

text \<open>
  A store either fails and returns the destination as it got it, or succeeds
  after one \<open>v.Set\<close>; it succeeds only on a destination of kind \<open>Interface\<close>, after
  the begin-constructor action and a \<open>d.ctor\<close> that returned no error.
\<close>

lemma storeNumberInt_cases:
  "storeNumberInt hs v d = (r, d', v') \<Longrightarrow>
     (\<exists>e. r = Inl e \<and> v' = v) \<or>
     (r = Inr () \<and> kind v = Interface \<and> (\<exists>a. v' = Value_Set v a) \<and>
      (\<exists>d1 args. scanWhile hs scanSkipSpace d = (scanBeginCtor, d1) \<and>
         ctor hs ''NumberInt'' [numberIntType] d1 = (Inr (args, None), d')))"
  by (auto simp add: storeNumberInt_def
      split: prod.splits sum.splits option.splits list.splits if_splits)

lemma storeNumberLong_cases:
  "storeNumberLong hs v d = (r, d', v') \<Longrightarrow>
     (\<exists>e. r = Inl e \<and> v' = v) \<or>
     (r = Inr () \<and> kind v = Interface \<and> (\<exists>a. v' = Value_Set v a) \<and>
      (\<exists>d1 args. scanWhile hs scanSkipSpace d = (scanBeginCtor, d1) \<and>
         ctor hs ''NumberLong'' [numberLongType] d1 = (Inr (args, None), d')))"
  by (auto simp add: storeNumberLong_def
      split: prod.splits sum.splits option.splits list.splits if_splits)

lemma storeNumberDecimal_cases:
  "storeNumberDecimal hs v d = (r, d', v') \<Longrightarrow>
     (\<exists>e. r = Inl e \<and> v' = v) \<or>
     (r = Inr () \<and> kind v = Interface \<and> (\<exists>a. v' = Value_Set v a) \<and>
      (\<exists>d1 args. scanWhile hs scanSkipSpace d = (scanBeginCtor, d1) \<and>
         ctor hs ''string'' [stringType] d1 = (Inr (args, None), d')))"
  by (auto simp add: storeNumberDecimal_def
      split: prod.splits sum.splits option.splits list.splits if_splits)



lemma Value_Set_length: "length (stored (Value_Set v a)) = length (stored v) + 1"
  by (simp add: Value_Set_def)

section \<open>The keyword states\<close>

text \<open>
  C10. \<open>stateUpperNu\<close> returns \<open>scanContinue\<close> on \<open>m\<close> and installs the chain for
  the suffix \<open>ber\<close> that leads to \<open>stateUpperNumber\<close>; \<open>stateUpperNumber\<close> returns
  \<open>scanContinue\<close> on \<open>I\<close>, \<open>L\<close> and \<open>D\<close> and installs the chain for \<open>nt\<close>, \<open>ong\<close>
  and \<open>ecimal\<close> that leads to the constructor state. Each accepted character
  changes the step function once, leaves the rest of the scanner as it is, and
  the action returned is not one that ends a value or reports an error.
\<close>

theorem Number_keyword_transitions:
  "stateUpperNu s (CHR ''m'') =
     (scanContinue, s\<lparr>step := generateState ''Number'' ''ber'' stateUpperNumber_fn\<rparr>)
   \<and> stateUpperNumber s (CHR ''I'') =
     (scanContinue, s\<lparr>step := generateState ''NumberInt'' ''nt'' stateConstructor\<rparr>)
   \<and> stateUpperNumber s (CHR ''L'') =
     (scanContinue, s\<lparr>step := generateState ''NumberLong'' ''ong'' stateConstructor\<rparr>)
   \<and> stateUpperNumber s (CHR ''D'') =
     (scanContinue, s\<lparr>step := generateState ''NumberDecimal'' ''ecimal'' stateConstructor\<rparr>)
   \<and> scanContinue \<notin> {scanEnd, scanEndCtor, scanError}"
  by (simp add: stateUpperNu_def stateUpperNumber_def)

text \<open>
  C4 (the code differs). After \<open>Number\<close>, the character \<open>x\<close> is a syntax error
  that names \<open>x\<close>, but the context text of the error is
  \<open>in literal NumberInt or NumberLong (expecting 'I' or 'L')\<close>: the letter \<open>D\<close>,
  which the state accepts, does not occur in it.
\<close>

theorem stateUpperNumber_error_omits_D:
  "stateUpperNumber s (CHR ''x'') =
     (scanError,
      s\<lparr>step := stateError,
        err := Some (SyntaxError (CHR ''x'')
                 ''in literal NumberInt or NumberLong (expecting 'I' or 'L')'')\<rparr>)
   \<and> CHR ''D'' \<notin> set ''in literal NumberInt or NumberLong (expecting 'I' or 'L')''"
  by (simp add: stateUpperNumber_def scanner_error_def)

section \<open>The begin-constructor check\<close>

text \<open>
  C8. Each of the six entry points first calls \<open>d.scanWhile(scanSkipSpace)\<close>. If
  the action it returns is not \<open>scanBeginCtor\<close>, the entry point fails with the
  error \<open>expected beginning of constructor\<close>; the decode state is the one
  \<open>scanWhile\<close> left, so no argument was read, and a destination is returned
  unchanged.
\<close>

theorem expected_beginning_of_constructor:
  assumes "scanWhile hs scanSkipSpace d = (op, d1)" and "op \<noteq> scanBeginCtor"
  shows "getNumberInt hs d = (Inl (Errorf ''expected beginning of constructor'' []), d1)
   \<and> getNumberLong hs d = (Inl (Errorf ''expected beginning of constructor'' []), d1)
   \<and> getNumberDecimal hs d = (Inl (Errorf ''expected beginning of constructor'' []), d1)
   \<and> storeNumberInt hs v d = (Inl (Errorf ''expected beginning of constructor'' []), d1, v)
   \<and> storeNumberLong hs v d = (Inl (Errorf ''expected beginning of constructor'' []), d1, v)
   \<and> storeNumberDecimal hs v d = (Inl (Errorf ''expected beginning of constructor'' []), d1, v)"
  using assms
  by (simp add: getNumberInt_def getNumberLong_def getNumberDecimal_def
      storeNumberInt_def storeNumberLong_def storeNumberDecimal_def)

theorem expected_beginning_of_constructor_witness:
  "getNumberInt (run scanBeginLiteral (Inr ([Str ''5''], None)) (call [Quoted ''5'']) accept_all)
        \<lparr>useNumber = False, cursor = ()\<rparr> =
     (Inl (Errorf ''expected beginning of constructor'' []), \<lparr>useNumber = False, cursor = ()\<rparr>)
   \<and> getNumberLong (run scanBeginLiteral (Inr ([Str ''5''], None)) (call [Quoted ''5'']) accept_all)
         \<lparr>useNumber = False, cursor = ()\<rparr> =
     (Inl (Errorf ''expected beginning of constructor'' []), \<lparr>useNumber = False, cursor = ()\<rparr>)
   \<and> getNumberDecimal (run scanBeginLiteral (Inr ([Str ''5''], None)) (call [Quoted ''5'']) accept_all)
         \<lparr>useNumber = False, cursor = ()\<rparr> =
     (Inl (Errorf ''expected beginning of constructor'' []), \<lparr>useNumber = False, cursor = ()\<rparr>)
   \<and> storeNumberInt (run scanBeginLiteral (Inr ([Str ''5''], None)) (call [Quoted ''5'']) accept_all)
       \<lparr>kind = Interface, stored = []\<rparr> \<lparr>useNumber = False, cursor = ()\<rparr> =
     (Inl (Errorf ''expected beginning of constructor'' []), \<lparr>useNumber = False, cursor = ()\<rparr>, \<lparr>kind = Interface, stored = []\<rparr>)
   \<and> storeNumberLong (run scanBeginLiteral (Inr ([Str ''5''], None)) (call [Quoted ''5'']) accept_all)
       \<lparr>kind = Interface, stored = []\<rparr> \<lparr>useNumber = False, cursor = ()\<rparr> =
     (Inl (Errorf ''expected beginning of constructor'' []), \<lparr>useNumber = False, cursor = ()\<rparr>, \<lparr>kind = Interface, stored = []\<rparr>)
   \<and> storeNumberDecimal (run scanBeginLiteral (Inr ([Str ''5''], None)) (call [Quoted ''5'']) accept_all)
       \<lparr>kind = Interface, stored = []\<rparr> \<lparr>useNumber = False, cursor = ()\<rparr> =
     (Inl (Errorf ''expected beginning of constructor'' []), \<lparr>useNumber = False, cursor = ()\<rparr>, \<lparr>kind = Interface, stored = []\<rparr>)"
proof -
  have sw: "scanWhile (run scanBeginLiteral (Inr ([Str ''5''], None)) (call [Quoted ''5'']) accept_all)
              scanSkipSpace \<lparr>useNumber = False, cursor = ()\<rparr> = (scanBeginLiteral,
                    \<lparr>useNumber = False, cursor = ()\<rparr>)"
    by (simp add: run_def)
  have ne: "scanBeginLiteral \<noteq> scanBeginCtor" by simp
  show ?thesis
    by (rule expected_beginning_of_constructor [OF sw ne])
qed

section \<open>The dynamic entry points\<close>

text \<open>
  C3 (the code differs). \<open>getNumberDecimal\<close> passes the name \<open>string\<close> to
  \<open>ctorNumArgsMismatch\<close>: on \<open>NumberDecimal("1.5", "2")\<close> the arity error carries
  the expected count 1 and the actual count 2, but the name \<open>string\<close> and not
  \<open>NumberDecimal\<close>.
\<close>

theorem getNumberDecimal_arity_error_names_string:
  "getNumberDecimal (run scanBeginCtor c (call [Quoted ''1.5'', Quoted ''2'']) P) d =
     (Inl (ArityMismatch ''string'' 1 2), d\<lparr>useNumber := True\<rparr>)
   \<and> ArityMismatch ''string'' 1 2 \<noteq> ArityMismatch ''NumberDecimal'' 1 2"
  by (simp add: getNumberDecimal_def run_def call_def ctorNumArgsMismatch_def)

text \<open>
  C2 (the code differs). The flag \<open>useNumber\<close> is set before the arguments are
  read and is restored only after the type switch on the argument. An arity
  error and an argument type error are raised before that line: on
  \<open>NumberInt(1, 2)\<close>, on \<open>NumberLong(true)\<close> and on \<open>NumberDecimal()\<close>, a decode
  state that had the flag unset is left with the flag set.
\<close>

theorem getNumber_early_error_leaves_useNumber_set:
  "getNumberInt (run scanBeginCtor c (call [Bare ''1'', Bare ''2'']) P)
        \<lparr>useNumber = False, cursor = ()\<rparr> =
     (Inl (ArityMismatch ''NumberInt'' 1 2), \<lparr>useNumber = True, cursor = ()\<rparr>)
   \<and> getNumberLong (run scanBeginCtor c (\<lambda>u. Inr [OtherValue ''bool'' ''true'']) P)
         \<lparr>useNumber = False, cursor = ()\<rparr> =
     (Inl (Errorf ''expected int64 for first argument of NumberLong constructor, got %T (value was %v)''
             [ArgValue (OtherValue ''bool'' ''true''), ArgValue (OtherValue ''bool'' ''true'')]),
      \<lparr>useNumber = True, cursor = ()\<rparr>)
   \<and> getNumberDecimal (run scanBeginCtor c (call []) P) \<lparr>useNumber = False, cursor = ()\<rparr> =
     (Inl (ArityMismatch ''string'' 1 0), \<lparr>useNumber = True, cursor = ()\<rparr>)"
  by (simp add: getNumberInt_def getNumberLong_def getNumberDecimal_def run_def call_def
      ctorNumArgsMismatch_def)

text \<open>
  C1 (the code differs). \<open>storeNumberDecimal\<close> drops the error result of
  \<open>ParseDecimal128\<close>: with a parser that rejects the text \<open>abc\<close>, decoding
  \<open>NumberDecimal("abc")\<close> into a destination of kind \<open>Interface\<close> succeeds and
  stores a \<open>Decimal128\<close> made of the value the parser returned beside its error,
  while \<open>getNumberDecimal\<close> fails on the same literal with the wrapped parse
  error.
\<close>

theorem storeNumberDecimal_discards_parse_error:
  "storeNumberDecimal (run scanBeginCtor (Inr ([Str ''abc''], None)) ci reject_all)
       \<lparr>kind = Interface, stored = []\<rparr> d =
     (Inr (), d, \<lparr>kind = Interface, stored = [Decimal128 \<lparr>h = 0, l = 0\<rparr>]\<rparr>)
   \<and> reject_all ''abc'' = (\<lparr>h = 0, l = 0\<rparr>, Some ''not a decimal: abc'')
   \<and> getNumberDecimal (run scanBeginCtor c (call [Quoted ''abc'']) reject_all) d =
     (Inl (Errorf ''parse decimal error: %s'' [ArgString ''not a decimal: abc'']), d)"
  by (simp add: storeNumberDecimal_def getNumberDecimal_def run_def call_def
      ctorNumArgsMismatch_def reject_all_def Value_Set_def)

text \<open>
  C6. For every integer \<open>n\<close> with \<open>-2^31 \<le> n < 2^31\<close>, \<open>getNumberInt\<close> on
  \<open>NumberInt(n)\<close> with the bare number and on \<open>NumberInt("n")\<close> with the same
  text quoted both succeed and return the same \<open>NumberInt\<close>, the 32-bit value
  whose signed reading is \<open>n\<close>; the decode state is left as it was.
\<close>

theorem NumberInt_bare_and_quoted:
  assumes "- (2 ^ 31) \<le> n" and "n < 2 ^ 31"
  shows "getNumberInt (run scanBeginCtor c (call [Bare (itoa n)]) P) d =
           (Inr (NumberInt (word_of_int n)), d)
       \<and> getNumberInt (run scanBeginCtor c (call [Quoted (itoa n)]) P) d =
           (Inr (NumberInt (word_of_int n)), d)
       \<and> sint (word_of_int n :: 32 word) = n"
  using assms
  by (simp add: getNumberInt_def run_def call_def ctorNumArgsMismatch_def Int32_spec_itoa
      sint_int32)

theorem NumberInt_bare_and_quoted_witness:
  "getNumberInt (run scanBeginCtor (Inl (RuntimePanic [])) (call [Bare ''-2147483648'']) accept_all)
        \<lparr>useNumber = False, cursor = ()\<rparr> =
     (Inr (NumberInt (word_of_int (- 2147483648))), \<lparr>useNumber = False, cursor = ()\<rparr>)
   \<and> getNumberInt (run scanBeginCtor (Inl (RuntimePanic [])) (call [Quoted ''-2147483648'']) accept_all)
         \<lparr>useNumber = False, cursor = ()\<rparr> =
     (Inr (NumberInt (word_of_int (- 2147483648))), \<lparr>useNumber = False, cursor = ()\<rparr>)
   \<and> sint (word_of_int (- 2147483648) :: 32 word) = - 2147483648"
proof -
  have lo: "- (2 ^ 31) \<le> (- 2147483648 :: int)" and hi: "(- 2147483648 :: int) < 2 ^ 31"
    by simp_all
  have dec: "itoa (- 2147483648) = ''-2147483648''"
    by (simp add: itoa_def char_of_eq_iff)
  show ?thesis
    using NumberInt_bare_and_quoted [OF lo hi, of "Inl (RuntimePanic [])" accept_all "\<lparr>useNumber = False, cursor = ()\<rparr>"]
    unfolding dec by simp
qed

text \<open>
  C7. For every integer \<open>n\<close> with \<open>-2^63 \<le> n < 2^63\<close> that is outside
  \<open>-2^31 \<le> n < 2^31\<close>, \<open>getNumberLong\<close> on \<open>NumberLong(n)\<close> succeeds and returns
  the 64-bit value whose signed reading is \<open>n\<close>, and \<open>getNumberInt\<close> on
  \<open>NumberInt(n)\<close> fails with the error of the 32-bit conversion, which carries
  the text of \<open>n\<close>.
\<close>

theorem NumberLong_accepts_NumberInt_rejects:
  assumes "- (2 ^ 63) \<le> n" and "n < 2 ^ 63" and "n < - (2 ^ 31) \<or> 2 ^ 31 \<le> n"
  shows "getNumberLong (run scanBeginCtor c (call [Bare (itoa n)]) P) d =
           (Inr (NumberLong (word_of_int n)), d)
       \<and> sint (word_of_int n :: 64 word) = n
       \<and> getNumberInt (run scanBeginCtor c (call [Bare (itoa n)]) P) d =
           (Inl (Errorf ''expected int32 for first argument of NumberInt constructor, got %T (value was %v)''
                   [ArgValue (Number (itoa n)), ArgValue (Number (itoa n))]), d)"
  using assms
  by (simp add: getNumberLong_def getNumberInt_def run_def call_def ctorNumArgsMismatch_def
      Int64_spec_itoa Int32_spec_itoa_out sint_int64)

theorem NumberLong_accepts_NumberInt_rejects_witness:
  "getNumberLong (run scanBeginCtor (Inl (RuntimePanic [])) (call [Bare ''2147483648'']) accept_all)
        \<lparr>useNumber = False, cursor = ()\<rparr> =
     (Inr (NumberLong (word_of_int 2147483648)), \<lparr>useNumber = False, cursor = ()\<rparr>)
   \<and> sint (word_of_int 2147483648 :: 64 word) = 2147483648
   \<and> getNumberInt (run scanBeginCtor (Inl (RuntimePanic [])) (call [Bare ''2147483648'']) accept_all)
         \<lparr>useNumber = False, cursor = ()\<rparr> =
     (Inl (Errorf ''expected int32 for first argument of NumberInt constructor, got %T (value was %v)''
             [ArgValue (Number ''2147483648''), ArgValue (Number ''2147483648'')]),
                   \<lparr>useNumber = False, cursor = ()\<rparr>)"
proof -
  have lo: "- (2 ^ 63) \<le> (2147483648 :: int)" and hi: "(2147483648 :: int) < 2 ^ 63"
    and out: "(2147483648 :: int) < - (2 ^ 31) \<or> 2 ^ 31 \<le> (2147483648 :: int)"
    by simp_all
  have dec: "itoa 2147483648 = ''2147483648''"
    by (simp add: itoa_def char_of_eq_iff)
  show ?thesis
    using NumberLong_accepts_NumberInt_rejects [OF lo hi out, of "Inl (RuntimePanic [])" accept_all "\<lparr>useNumber = False, cursor = ()\<rparr>"]
    unfolding dec by simp
qed

section \<open>The destination of a store\<close>




text \<open>
  C9. Whatever a store returns, the destination it leaves is the one it got or
  that one after a single \<open>v.Set\<close>. If the store fails, the destination is
  unchanged. If the destination changed, the store succeeded, the destination
  is of kind \<open>Interface\<close>, the begin-constructor action was read and \<open>d.ctor\<close>
  returned its values without an error.
\<close>

theorem store_writes_destination_at_most_once:
  "(storeNumberInt hs v d = (r, d', v') \<longrightarrow>
      ((\<exists>e. r = Inl e) \<longrightarrow> v' = v)
    \<and> (v' = v \<or> (\<exists>a. v' = Value_Set v a))
    \<and> length (stored v') \<le> length (stored v) + 1
    \<and> (v' \<noteq> v \<longrightarrow> r = Inr () \<and> kind v = Interface \<and>
         (\<exists>d1 args. scanWhile hs scanSkipSpace d = (scanBeginCtor, d1) \<and>
            ctor hs ''NumberInt'' [numberIntType] d1 = (Inr (args, None), d'))))
 \<and> (storeNumberLong hs v d = (r, d', v') \<longrightarrow>
      ((\<exists>e. r = Inl e) \<longrightarrow> v' = v)
    \<and> (v' = v \<or> (\<exists>a. v' = Value_Set v a))
    \<and> length (stored v') \<le> length (stored v) + 1
    \<and> (v' \<noteq> v \<longrightarrow> r = Inr () \<and> kind v = Interface \<and>
         (\<exists>d1 args. scanWhile hs scanSkipSpace d = (scanBeginCtor, d1) \<and>
            ctor hs ''NumberLong'' [numberLongType] d1 = (Inr (args, None), d'))))
 \<and> (storeNumberDecimal hs v d = (r, d', v') \<longrightarrow>
      ((\<exists>e. r = Inl e) \<longrightarrow> v' = v)
    \<and> (v' = v \<or> (\<exists>a. v' = Value_Set v a))
    \<and> length (stored v') \<le> length (stored v) + 1
    \<and> (v' \<noteq> v \<longrightarrow> r = Inr () \<and> kind v = Interface \<and>
         (\<exists>d1 args. scanWhile hs scanSkipSpace d = (scanBeginCtor, d1) \<and>
            ctor hs ''string'' [stringType] d1 = (Inr (args, None), d'))))"
proof -
  have len: "\<And>w. w = v \<or> (\<exists>a. w = Value_Set v a) \<Longrightarrow> length (stored w) \<le> length (stored v) + 1"
    by (auto simp add: Value_Set_length)
  show ?thesis
    using storeNumberInt_cases [of hs v d r d' v'] storeNumberLong_cases [of hs v d r d' v']
      storeNumberDecimal_cases [of hs v d r d' v'] len [of v']
    by blast
qed

theorem store_writes_destination_at_most_once_witness:
  "storeNumberInt (run scanBeginCtor (Inr ([NumberInt 5], None)) (call []) accept_all)
       \<lparr>kind = Interface, stored = []\<rparr> \<lparr>useNumber = False, cursor = ()\<rparr> =
     (Inr (), \<lparr>useNumber = False, cursor = ()\<rparr>, \<lparr>kind = Interface, stored = [NumberInt 5]\<rparr>)
   \<and> kind \<lparr>kind = Interface, stored = []\<rparr> = Interface
   \<and> length (stored \<lparr>kind = Interface, stored = [NumberInt 5]\<rparr>)
       \<le> length (stored \<lparr>kind = Interface, stored = []\<rparr>) + 1
   \<and> (\<exists>d1 args. scanWhile (run scanBeginCtor (Inr ([NumberInt 5], None)) (call []) accept_all)
          scanSkipSpace \<lparr>useNumber = False, cursor = ()\<rparr> = (scanBeginCtor, d1) \<and>
        ctor (run scanBeginCtor (Inr ([NumberInt 5], None)) (call []) accept_all)
          ''NumberInt'' [numberIntType] d1 = (Inr (args, None),
                \<lparr>useNumber = False, cursor = ()\<rparr>))"
proof -
  have ex: "storeNumberInt (run scanBeginCtor (Inr ([NumberInt 5], None)) (call []) accept_all)
       \<lparr>kind = Interface, stored = []\<rparr> \<lparr>useNumber = False, cursor = ()\<rparr> =
     (Inr (), \<lparr>useNumber = False, cursor = ()\<rparr>, \<lparr>kind = Interface, stored = [NumberInt 5]\<rparr>)"
    by (simp add: storeNumberInt_def run_def Value_Set_def)
  have changed: "\<lparr>kind = Interface, stored = [NumberInt 5]\<rparr> \<noteq> \<lparr>kind = Interface, stored = []\<rparr>"
    by simp
  show ?thesis
    using store_writes_destination_at_most_once
      [of "run scanBeginCtor (Inr ([NumberInt 5], None)) (call []) accept_all"
          "\<lparr>kind = Interface, stored = []\<rparr>" "\<lparr>useNumber = False, cursor = ()\<rparr>" "Inr ()" "\<lparr>useNumber = False, cursor = ()\<rparr>"
          "\<lparr>kind = Interface, stored = [NumberInt 5]\<rparr>"] ex changed
    by blast
qed

section \<open>Further properties of the entry points\<close>

text \<open>
  X1. Every character other than \<open>m\<close> is a syntax error of \<open>stateUpperNu\<close>, and
  every character other than \<open>I\<close>, \<open>L\<close> and \<open>D\<close> is a syntax error of
  \<open>stateUpperNumber\<close>: the step returns \<open>scanError\<close>, the scanner moves to its
  error state, and the error carries the offending character and the context
  text of the source.
\<close>

theorem keyword_syntax_errors:
  "(c \<noteq> CHR ''m'' \<longrightarrow>
      stateUpperNu s c =
        (scanError, s\<lparr>step := stateError,
           err := Some (SyntaxError c ''in literal Number (expecting 'm')'')\<rparr>))
   \<and> (c \<noteq> CHR ''I'' \<and> c \<noteq> CHR ''L'' \<and> c \<noteq> CHR ''D'' \<longrightarrow>
      stateUpperNumber s c =
        (scanError, s\<lparr>step := stateError,
           err := Some (SyntaxError c ''in literal NumberInt or NumberLong (expecting 'I' or 'L')'')\<rparr>))"
  by (simp add: stateUpperNu_def stateUpperNumber_def scanner_error_def)

theorem keyword_syntax_errors_witness:
  "stateUpperNu \<lparr>step = stateUpperNu_fn, err = None\<rparr> (CHR ''n'') =
     (scanError, \<lparr>step = stateError,
        err = Some (SyntaxError (CHR ''n'') ''in literal Number (expecting 'm')'')\<rparr>)
   \<and> stateUpperNumber \<lparr>step = stateUpperNumber_fn, err = None\<rparr> (CHR ''n'') =
     (scanError, \<lparr>step = stateError,
        err = Some (SyntaxError (CHR ''n'') ''in literal NumberInt or NumberLong (expecting 'I' or 'L')'')\<rparr>)"
proof -
  have m: "CHR ''n'' \<noteq> CHR ''m''" by simp
  have ild: "CHR ''n'' \<noteq> CHR ''I'' \<and> CHR ''n'' \<noteq> CHR ''L'' \<and> CHR ''n'' \<noteq> CHR ''D''" by simp
  show ?thesis
    using keyword_syntax_errors [of "CHR ''n''" "\<lparr>step = stateUpperNu_fn, err = None\<rparr>"]
      keyword_syntax_errors [of "CHR ''n''" "\<lparr>step = stateUpperNumber_fn, err = None\<rparr>"] m ild
    by simp
qed

text \<open>
  X2. When \<open>d.ctorInterface\<close> returns an argument list whose length is not
  1, each dynamic entry point fails with an arity error that carries the
  expected count 1 and the length read; the name it carries is \<open>NumberInt\<close> for
  \<open>getNumberInt\<close>, \<open>NumberLong\<close> for \<open>getNumberLong\<close> and \<open>string\<close> for
  \<open>getNumberDecimal\<close>. The decode state is the one \<open>d.ctorInterface\<close> left.
\<close>

theorem getNumber_arity_mismatch:
  assumes "scanWhile hs scanSkipSpace d = (scanBeginCtor, d1)"
    and "ctorInterface hs (d1\<lparr>useNumber := True\<rparr>) = (Inr args, d3)"
    and "length args \<noteq> 1"
  shows "getNumberInt hs d = (Inl (ArityMismatch ''NumberInt'' 1 (int (length args))), d3)
       \<and> getNumberLong hs d = (Inl (ArityMismatch ''NumberLong'' 1 (int (length args))), d3)
       \<and> getNumberDecimal hs d = (Inl (ArityMismatch ''string'' 1 (int (length args))), d3)"
  using assms
  by (simp add: getNumberInt_def getNumberLong_def getNumberDecimal_def ctorNumArgsMismatch_def)

theorem getNumber_arity_mismatch_witness:
  "getNumberInt (run scanBeginCtor (Inr ([], None)) (call []) accept_all)
        \<lparr>useNumber = False, cursor = ()\<rparr> =
     (Inl (ArityMismatch ''NumberInt'' 1 0), \<lparr>useNumber = True, cursor = ()\<rparr>)
   \<and> getNumberLong (run scanBeginCtor (Inr ([], None)) (call []) accept_all)
         \<lparr>useNumber = False, cursor = ()\<rparr> =
     (Inl (ArityMismatch ''NumberLong'' 1 0), \<lparr>useNumber = True, cursor = ()\<rparr>)
   \<and> getNumberDecimal (run scanBeginCtor (Inr ([], None)) (call []) accept_all)
         \<lparr>useNumber = False, cursor = ()\<rparr> =
     (Inl (ArityMismatch ''string'' 1 0), \<lparr>useNumber = True, cursor = ()\<rparr>)"
proof -
  have sw: "scanWhile (run scanBeginCtor (Inr ([], None)) (call []) accept_all) scanSkipSpace
        \<lparr>useNumber = False, cursor = ()\<rparr> =
      (scanBeginCtor, \<lparr>useNumber = False, cursor = ()\<rparr>)"
    by (simp add: run_def)
  have ci: "ctorInterface (run scanBeginCtor (Inr ([], None)) (call []) accept_all)
      (\<lparr>useNumber = False, cursor = ()\<rparr>\<lparr>useNumber := True\<rparr>) = (Inr [],
            \<lparr>useNumber = True, cursor = ()\<rparr>)"
    by (simp add: run_def call_def)
  have n: "length ([] :: val list) \<noteq> 1" by simp
  show ?thesis
    using getNumber_arity_mismatch [OF sw ci n] by simp
qed

text \<open>
  X3. When the single argument is neither a \<open>json.Number\<close> nor a string, each
  dynamic entry point fails with an error that carries the argument twice (for
  its type and for its value). The text of the error of \<open>getNumberDecimal\<close> is
  the one of \<open>getNumberInt\<close>.
\<close>

theorem getNumber_argument_type_error:
  assumes "scanWhile hs scanSkipSpace d = (scanBeginCtor, d1)"
    and "ctorInterface hs (d1\<lparr>useNumber := True\<rparr>) = (Inr [a], d3)"
    and "(\<nexists>s. a = Number s) \<and> (\<nexists>s. a = Str s)"
  shows "getNumberInt hs d =
           (Inl (Errorf ''expected int32 for first argument of NumberInt constructor, got %T (value was %v)''
                   [ArgValue a, ArgValue a]), d3)
       \<and> getNumberLong hs d =
           (Inl (Errorf ''expected int64 for first argument of NumberLong constructor, got %T (value was %v)''
                   [ArgValue a, ArgValue a]), d3)
       \<and> getNumberDecimal hs d =
           (Inl (Errorf ''expected int32 for first argument of NumberInt constructor, got %T (value was %v)''
                   [ArgValue a, ArgValue a]), d3)"
  using assms
  by (cases a) (simp_all add: getNumberInt_def getNumberLong_def getNumberDecimal_def ctorNumArgsMismatch_def)

theorem getNumber_argument_type_error_witness:
  "getNumberDecimal (run scanBeginCtor (Inr ([], None)) (\<lambda>u. Inr [OtherValue ''bool'' ''true'']) accept_all)
        \<lparr>useNumber = False, cursor = ()\<rparr> =
     (Inl (Errorf ''expected int32 for first argument of NumberInt constructor, got %T (value was %v)''
             [ArgValue (OtherValue ''bool'' ''true''), ArgValue (OtherValue ''bool'' ''true'')]),
                   \<lparr>useNumber = True, cursor = ()\<rparr>)"
proof -
  have sw: "scanWhile (run scanBeginCtor (Inr ([], None)) (\<lambda>u. Inr [OtherValue ''bool'' ''true'']) accept_all)
      scanSkipSpace \<lparr>useNumber = False, cursor = ()\<rparr> = (scanBeginCtor,
            \<lparr>useNumber = False, cursor = ()\<rparr>)"
    by (simp add: run_def)
  have ci: "ctorInterface (run scanBeginCtor (Inr ([], None)) (\<lambda>u. Inr [OtherValue ''bool'' ''true'']) accept_all)
      (\<lparr>useNumber = False, cursor = ()\<rparr>\<lparr>useNumber := True\<rparr>) = (Inr [OtherValue ''bool'' ''true''],
            \<lparr>useNumber = True, cursor = ()\<rparr>)"
    by (simp add: run_def)
  have a: "(\<nexists>s. OtherValue ''bool'' ''true'' = Number s) \<and> (\<nexists>s. OtherValue ''bool'' ''true'' = Str s)"
    by simp
  show ?thesis
    using getNumber_argument_type_error [OF sw ci a] by simp
qed

text \<open>
  X4. When the argument list read by \<open>d.ctorInterface\<close> is a single
  \<open>json.Number\<close> or a single string, each of the three dynamic entry points
  leaves the decode state that \<open>d.ctorInterface\<close> left, with \<open>useNumber\<close> set
  back to the value it had when the constructor was entered. This covers the
  successful return and the failure of the integer conversion or of the decimal
  parser, which all come after the restoring assignment.
\<close>

theorem getNumber_restores_useNumber:
  assumes "scanWhile hs scanSkipSpace d = (scanBeginCtor, d1)"
    and "ctorInterface hs (d1\<lparr>useNumber := True\<rparr>) = (Inr [a], d3)"
    and "a = Number s \<or> a = Str s"
  shows "snd (getNumberInt hs d) = d3\<lparr>useNumber := useNumber d1\<rparr>
       \<and> snd (getNumberLong hs d) = d3\<lparr>useNumber := useNumber d1\<rparr>
       \<and> snd (getNumberDecimal hs d) = d3\<lparr>useNumber := useNumber d1\<rparr>"
  using assms
  by (auto simp add: getNumberInt_def getNumberLong_def getNumberDecimal_def
      ctorNumArgsMismatch_def Let_def split: option.splits prod.splits)

theorem getNumber_restores_useNumber_witness:
  "snd (getNumberInt (run scanBeginCtor (Inr ([], None)) (call [Quoted ''1.5'']) reject_all)
        \<lparr>useNumber = False, cursor = ()\<rparr>) = \<lparr>useNumber = False, cursor = ()\<rparr>
   \<and> snd (getNumberLong (run scanBeginCtor (Inr ([], None)) (call [Quoted ''1.5'']) reject_all)
         \<lparr>useNumber = False, cursor = ()\<rparr>) = \<lparr>useNumber = False, cursor = ()\<rparr>
   \<and> snd (getNumberDecimal (run scanBeginCtor (Inr ([], None)) (call [Quoted ''1.5'']) reject_all)
         \<lparr>useNumber = False, cursor = ()\<rparr>) = \<lparr>useNumber = False, cursor = ()\<rparr>"
proof -
  have sw: "scanWhile (run scanBeginCtor (Inr ([], None)) (call [Quoted ''1.5'']) reject_all) scanSkipSpace
        \<lparr>useNumber = False, cursor = ()\<rparr> =
      (scanBeginCtor, \<lparr>useNumber = False, cursor = ()\<rparr>)"
    by (simp add: run_def)
  have ci: "ctorInterface (run scanBeginCtor (Inr ([], None)) (call [Quoted ''1.5'']) reject_all)
      (\<lparr>useNumber = False, cursor = ()\<rparr>\<lparr>useNumber := True\<rparr>) = (Inr [Str ''1.5''],
            \<lparr>useNumber = True, cursor = ()\<rparr>)"
    by (simp add: run_def call_def)
  have a: "Str ''1.5'' = Number ''1.5'' \<or> Str ''1.5'' = Str ''1.5''" by simp
  show ?thesis
    using getNumber_restores_useNumber [OF sw ci a] by simp
qed

text \<open>
  X5. On a single \<open>json.Number\<close> or string argument with the text \<open>s\<close>,
  \<open>getNumberDecimal\<close> passes \<open>s\<close> to the decimal parser: an error of the parser
  becomes the error \<open>parse decimal error\<close> with the parser's message, and a
  parsed value is returned as a \<open>Decimal128\<close>.
\<close>

theorem getNumberDecimal_parse:
  assumes "scanWhile hs scanSkipSpace d = (scanBeginCtor, d1)"
    and "ctorInterface hs (d1\<lparr>useNumber := True\<rparr>) = (Inr [a], d3)"
    and "a = Number s \<or> a = Str s"
  shows "getNumberDecimal hs d =
           (case ParseDecimal128 hs s of
              (x, Some msg) \<Rightarrow>
                (Inl (Errorf ''parse decimal error: %s'' [ArgString msg]), d3\<lparr>useNumber := useNumber d1\<rparr>)
            | (x, None) \<Rightarrow> (Inr (Decimal128 x), d3\<lparr>useNumber := useNumber d1\<rparr>))"
  using assms
  by (auto simp add: getNumberDecimal_def ctorNumArgsMismatch_def Let_def split: option.splits prod.splits)

theorem getNumberDecimal_parse_witness:
  "getNumberDecimal (run scanBeginCtor (Inr ([], None)) (call [Bare ''1.5'']) accept_all)
        \<lparr>useNumber = False, cursor = ()\<rparr> =
     (Inr (Decimal128 \<lparr>h = 0, l = 3\<rparr>), \<lparr>useNumber = False, cursor = ()\<rparr>)"
proof -
  have sw: "scanWhile (run scanBeginCtor (Inr ([], None)) (call [Bare ''1.5'']) accept_all) scanSkipSpace
        \<lparr>useNumber = False, cursor = ()\<rparr> =
      (scanBeginCtor, \<lparr>useNumber = False, cursor = ()\<rparr>)"
    by (simp add: run_def)
  have ci: "ctorInterface (run scanBeginCtor (Inr ([], None)) (call [Bare ''1.5'']) accept_all)
      (\<lparr>useNumber = False, cursor = ()\<rparr>\<lparr>useNumber := True\<rparr>) = (Inr [Number ''1.5''],
            \<lparr>useNumber = True, cursor = ()\<rparr>)"
    by (simp add: run_def call_def)
  have a: "Number ''1.5'' = Number ''1.5'' \<or> Number ''1.5'' = Str ''1.5''" by simp
  show ?thesis
    using getNumberDecimal_parse [OF sw ci a] by (simp add: run_def accept_all_def)
qed

text \<open>
  X6. Into a destination of kind \<open>Interface\<close>, after the begin-constructor
  action and a \<open>d.ctor\<close> that returned its values without an error,
  \<open>storeNumberInt\<close> and \<open>storeNumberLong\<close> store the first value, and
  \<open>storeNumberDecimal\<close> stores the \<open>Decimal128\<close> made of the value the decimal
  parser returns for the string of the first value.
\<close>

theorem store_into_interface:
  assumes "scanWhile hs scanSkipSpace d = (scanBeginCtor, d1)" and "kind v = Interface"
  shows "(ctor hs ''NumberInt'' [numberIntType] d1 = (Inr (a # rest, None), d2) \<longrightarrow>
            storeNumberInt hs v d = (Inr (), d2, Value_Set v a))
       \<and> (ctor hs ''NumberLong'' [numberLongType] d1 = (Inr (a # rest, None), d2) \<longrightarrow>
            storeNumberLong hs v d = (Inr (), d2, Value_Set v a))
       \<and> (ctor hs ''string'' [stringType] d1 = (Inr (a # rest, None), d2) \<longrightarrow>
            storeNumberDecimal hs v d =
              (Inr (), d2, Value_Set v (Decimal128 (fst (ParseDecimal128 hs (Value_String a))))))"
  using assms
  by (simp add: storeNumberInt_def storeNumberLong_def storeNumberDecimal_def split: prod.splits)

theorem store_into_interface_witness:
  "storeNumberInt (run scanBeginCtor (Inr ([NumberInt 5], None)) (call []) accept_all)
       \<lparr>kind = Interface, stored = []\<rparr> \<lparr>useNumber = False, cursor = ()\<rparr> =
     (Inr (), \<lparr>useNumber = False, cursor = ()\<rparr>, \<lparr>kind = Interface, stored = [NumberInt 5]\<rparr>)
   \<and> storeNumberLong (run scanBeginCtor (Inr ([NumberLong 5], None)) (call []) accept_all)
       \<lparr>kind = Interface, stored = []\<rparr> \<lparr>useNumber = False, cursor = ()\<rparr> =
     (Inr (), \<lparr>useNumber = False, cursor = ()\<rparr>, \<lparr>kind = Interface, stored = [NumberLong 5]\<rparr>)
   \<and> storeNumberDecimal (run scanBeginCtor (Inr ([Str ''1.5''], None)) (call []) accept_all)
       \<lparr>kind = Interface, stored = []\<rparr> \<lparr>useNumber = False, cursor = ()\<rparr> =
     (Inr (), \<lparr>useNumber = False, cursor = ()\<rparr>, \<lparr>kind = Interface, stored = [Decimal128 \<lparr>h = 0, l = 3\<rparr>]\<rparr>)"
proof -
  have sw: "\<And>c. scanWhile (run scanBeginCtor c (call []) accept_all) scanSkipSpace
        \<lparr>useNumber = False, cursor = ()\<rparr> = (scanBeginCtor,
        \<lparr>useNumber = False, cursor = ()\<rparr>)"
    by (simp add: run_def)
  have k: "kind \<lparr>kind = Interface, stored = []\<rparr> = Interface" by simp
  show ?thesis
    using store_into_interface [OF sw k, of "Inr ([NumberInt 5], None)" "NumberInt 5" "[]" "\<lparr>useNumber = False, cursor = ()\<rparr>"]
      store_into_interface [OF sw k, of "Inr ([NumberLong 5], None)" "NumberLong 5" "[]" "\<lparr>useNumber = False, cursor = ()\<rparr>"]
      store_into_interface [OF sw k, of "Inr ([Str ''1.5''], None)" "Str ''1.5''" "[]" "\<lparr>useNumber = False, cursor = ()\<rparr>"]
    by (simp add: run_def accept_all_def Value_Set_def)
qed

end
